theory Spec2Isabelle
  imports Main "HOL-Library.Word"
begin

section \<open>JavaScript values\<close>

text \<open>
  The adapter in \<^verbatim>\<open>lib/index.js\<close> is dynamically typed: configuration fields, cached
  items and parsed envelopes are arbitrary JavaScript values that the code tests for
  truthiness. Numbers are modelled as integers, the values the envelope's own fields
  (\<^verbatim>\<open>stored\<close>, \<^verbatim>\<open>ttl\<close>) hold; an object is the list of its own properties in
  insertion order.
\<close>

datatype jsval =
    JUndefined
  | JNull
  | JBool bool
  | JNum int
  | JStr string
  | JArr "jsval list"
  | JObj "(string \<times> jsval) list"

text \<open>A JavaScript \<^verbatim>\<open>Error\<close> object, identified by its message.\<close>

datatype error = Error string

text \<open>JavaScript's ToBoolean, as applied by \<^verbatim>\<open>!x\<close>, \<^verbatim>\<open>if (x)\<close>, \<^verbatim>\<open>&&\<close> and \<^verbatim>\<open>||\<close>.\<close>

fun truthy :: "jsval \<Rightarrow> bool" where
  "truthy JUndefined = False"
| "truthy JNull = False"
| "truthy (JBool b) = b"
| "truthy (JNum n) = (n \<noteq> 0)"
| "truthy (JStr s) = (s \<noteq> [])"
| "truthy (JArr xs) = True"
| "truthy (JObj kvs) = True"

text \<open>
  Property read \<^verbatim>\<open>v.k\<close> for the property names this program reads
  (\<^verbatim>\<open>item\<close>, \<^verbatim>\<open>stored\<close>, \<^verbatim>\<open>length\<close>). Reading a property of \<^verbatim>\<open>null\<close> or
  \<^verbatim>\<open>undefined\<close> throws a TypeError; a missing property reads as \<^verbatim>\<open>undefined\<close>.
\<close>

fun get_prop :: "jsval \<Rightarrow> string \<Rightarrow> error + jsval" where
  "get_prop JUndefined k = Inl (Error ''TypeError: Cannot read property of undefined'')"
| "get_prop JNull k = Inl (Error ''TypeError: Cannot read property of null'')"
| "get_prop (JObj kvs) k = Inr (case map_of kvs k of None \<Rightarrow> JUndefined | Some v \<Rightarrow> v)"
| "get_prop (JStr s) k = Inr (if k = ''length'' then JNum (int (length s)) else JUndefined)"
| "get_prop (JArr xs) k = Inr (if k = ''length'' then JNum (int (length xs)) else JUndefined)"
| "get_prop (JBool b) k = Inr JUndefined"
| "get_prop (JNum n) k = Inr JUndefined"

text \<open>Whether an object carries an own property of the given name.\<close>

fun has_field :: "jsval \<Rightarrow> string \<Rightarrow> bool" where
  "has_field (JObj kvs) k = (map_of kvs k \<noteq> None)"
| "has_field v k = False"

section \<open>Configuration and connection state\<close>

text \<open>A Buffer is a sequence of octets.\<close>

type_synonym buffer = "8 word list"

text \<open>
  The options object handed to the constructor: \<open>None\<close> is an absent property.
  \<^verbatim>\<open>partition\<close> is the string prefix joined into every store key.
\<close>

record options =
  opt_host :: "jsval option"
  opt_port :: "jsval option"
  opt_url :: "jsval option"
  opt_socket :: "jsval option"
  opt_sentinels :: "jsval option"
  opt_sentinelName :: "jsval option"
  opt_password :: "jsval option"
  opt_database :: "jsval option"
  opt_db :: "jsval option"
  opt_partition :: "string option"

text \<open>\<^verbatim>\<open>this.settings\<close>: an absent property reads as \<^verbatim>\<open>undefined\<close>.\<close>

record settings =
  host :: jsval
  port :: jsval
  url :: jsval
  socket :: jsval
  sentinels :: jsval
  sentinelName :: jsval
  password :: jsval
  database :: jsval
  db :: jsval
  partition_str :: "string option"

text \<open>The options object that \<^verbatim>\<open>start\<close> builds for \<^verbatim>\<open>Redis.createClient\<close>.\<close>

record client_options =
  co_password :: jsval
  co_db :: jsval
  co_sentinels :: "jsval option"
  co_name :: "jsval option"

text \<open>The three call shapes of \<^verbatim>\<open>Redis.createClient\<close> that \<^verbatim>\<open>start\<close> uses.\<close>

datatype create_call =
    CreateSentinel client_options
  | CreateUrl jsval client_options
  | CreateSocket jsval client_options
  | CreateHostPort jsval jsval client_options

text \<open>
  The underlying store client. \<open>origin\<close> is the call that created it (\<open>None\<close> for a
  client supplied by the caller); \<open>status\<close> is the client's own status string.
\<close>

record redis_client =
  origin :: "create_call option"
  status :: string

record connection =
  settings :: settings
  client :: "redis_client option"

text \<open>The logical key \<^verbatim>\<open>{segment, id}\<close>.\<close>

record key =
  segment :: string
  id_part :: string

section \<open>Constructor\<close>

text \<open>\<^verbatim>\<open>internals.defaults\<close>.\<close>

definition defaults_host :: jsval where
  "defaults_host = JStr ''127.0.0.1''"

definition defaults_port :: jsval where
  "defaults_port = JNum 6379"

text \<open>
  \<^verbatim>\<open>Object.assign({}, internals.defaults, options)\<close>: a property of \<open>options\<close>
  overrides the default; \<^verbatim>\<open>this.client = options.client || null\<close>, where the
  second argument is \<^verbatim>\<open>options.client\<close> (\<open>None\<close> when the caller supplies no client).
  The assertion that the constructor is called with \<^verbatim>\<open>new\<close> is left out.
\<close>

definition orUndefined :: "jsval option \<Rightarrow> jsval" where
  "orUndefined p = (case p of None \<Rightarrow> JUndefined | Some v \<Rightarrow> v)"

definition Connection :: "options \<Rightarrow> redis_client option \<Rightarrow> connection" where
  "Connection opts cl =
     \<lparr> settings =
         \<lparr> host = (case opt_host opts of None \<Rightarrow> defaults_host | Some v \<Rightarrow> v),
           port = (case opt_port opts of None \<Rightarrow> defaults_port | Some v \<Rightarrow> v),
           url = orUndefined (opt_url opts),
           socket = orUndefined (opt_socket opts),
           sentinels = orUndefined (opt_sentinels opts),
           sentinelName = orUndefined (opt_sentinelName opts),
           password = orUndefined (opt_password opts),
           database = orUndefined (opt_database opts),
           db = orUndefined (opt_db opts),
           partition_str = opt_partition opts \<rparr>,
       client = cl \<rparr>"

section \<open>validateSegmentName\<close>

text \<open>\<^verbatim>\<open>name.indexOf(c)\<close> for a one-character pattern: the first position, or -1.\<close>

fun indexOf :: "string \<Rightarrow> char \<Rightarrow> int" where
  "indexOf [] c = - 1"
| "indexOf (x # xs) c =
     (if x = c then 0
      else (let i = indexOf xs c in if i = - 1 then - 1 else i + 1))"

text \<open>Returns an Error object, or \<^verbatim>\<open>null\<close> (\<open>None\<close>) for a valid name.\<close>

definition validateSegmentName :: "string \<Rightarrow> error option" where
  "validateSegmentName name =
     (if name = [] then Some (Error ''Empty string'')
      else if indexOf name (CHR 0x00) \<noteq> - 1 then Some (Error ''Includes null character'')
      else None)"

section \<open>generateKey\<close>

text \<open>\<^verbatim>\<open>parts.join(sep)\<close> on an array of strings.\<close>

fun join :: "string list \<Rightarrow> string \<Rightarrow> string" where
  "join [] sep = []"
| "join [x] sep = x"
| "join (x # y # ys) sep = x @ sep @ join (y # ys) sep"

text \<open>\<^verbatim>\<open>if (this.settings.partition)\<close>: a configured, non-empty string.\<close>

definition partition_parts :: "settings \<Rightarrow> string list" where
  "partition_parts s =
     (case partition_str s of
        None \<Rightarrow> []
      | Some p \<Rightarrow> if p \<noteq> [] then [p] else [])"

definition generateKey :: "connection \<Rightarrow> key \<Rightarrow> string" where
  "generateKey this k =
     join (partition_parts (settings this) @ [segment k, id_part k]) '':''"

section \<open>External collaborators\<close>

text \<open>
  The serializer (\<^verbatim>\<open>JSON\<close>), the byte conversions of \<^verbatim>\<open>Buffer\<close> and the compression
  codec (\<^verbatim>\<open>LZ4\<close>) are libraries the adapter calls; they are parameters of the model.
  A call that throws returns \<open>Inl\<close> of the thrown error.
\<close>

record codec =
  JSON_stringify :: "jsval \<Rightarrow> error + string"
  JSON_parse :: "string \<Rightarrow> error + jsval"
  Buffer_from :: "string \<Rightarrow> buffer"
  Buffer_toString :: "buffer \<Rightarrow> string"
  LZ4_encode :: "buffer \<Rightarrow> error + buffer"
  LZ4_decode :: "buffer \<Rightarrow> error + buffer"

text \<open>Commands sent to the store client, and housekeeping calls made on it.\<close>

datatype command =
    GetBuffer string
  | Psetex string jsval buffer
  | Del string

datatype client_call = RemoveAllListeners | Quit | End bool

text \<open>
  How a completion callback is invoked: \<^verbatim>\<open>callback(err)\<close>, \<^verbatim>\<open>callback()\<close> (also
  \<^verbatim>\<open>callback(null)\<close>), or \<^verbatim>\<open>callback(null, value)\<close>.
\<close>

datatype outcome = Fail error | Done | Result jsval

text \<open>
  What one run of a function of the adapter does: it invokes the caller's callback, or
  sends a command to the store client (whose reply runs the continuation), or returns
  without invoking the callback, or lets an exception escape.
\<close>

datatype effect =
    Callback outcome
  | Issue command
  | NoCallback
  | Throws error

section \<open>start\<close>

text \<open>\<^verbatim>\<open>a || b\<close>.\<close>

definition js_or :: "jsval \<Rightarrow> jsval \<Rightarrow> jsval" where
  "js_or a b = (if truthy a then a else b)"

text \<open>\<^verbatim>\<open>this.settings.sentinels && this.settings.sentinels.length\<close>, as a condition.\<close>

definition has_sentinels :: "settings \<Rightarrow> bool" where
  "has_sentinels s =
     (truthy (sentinels s) \<and>
      (case get_prop (sentinels s) ''length'' of Inl e \<Rightarrow> False | Inr n \<Rightarrow> truthy n))"

text \<open>The call of \<^verbatim>\<open>Redis.createClient\<close> that \<^verbatim>\<open>start\<close> makes (lines 43 to 61).\<close>

definition createClient_call :: "settings \<Rightarrow> create_call" where
  "createClient_call s =
     (let opts = \<lparr> co_password = password s,
                   co_db = js_or (database s) (db s),
                   co_sentinels = None,
                   co_name = None \<rparr>
      in if has_sentinels s then
           CreateSentinel (opts\<lparr> co_sentinels := Some (sentinels s),
                                 co_name := Some (sentinelName s) \<rparr>)
         else if truthy (url s) then CreateUrl (url s) opts
         else if truthy (socket s) then CreateSocket (socket s) opts
         else CreateHostPort (port s) (host s) opts)"

text \<open>The client object that \<^verbatim>\<open>Redis.createClient\<close> returns: it is still connecting.\<close>

definition Redis_createClient :: "create_call \<Rightarrow> redis_client" where
  "Redis_createClient c = \<lparr> origin = Some c, status = ''connecting'' \<rparr>"

text \<open>
  The state of one \<^verbatim>\<open>start\<close> call: the adapter (\<open>self\<close>), the local variable
  \<^verbatim>\<open>client\<close>, which of the two listeners are registered on it, the flag of
  \<^verbatim>\<open>Hoek.once\<close>, the invocations of the caller's completion callback so far (oldest
  first) and the calls made on the new client.
\<close>

record start_state =
  self :: connection
  new_client :: "redis_client option"
  on_error :: bool
  once_ready :: bool
  called :: bool
  fired :: "outcome list"
  client_calls :: "client_call list"

text \<open>
  \<^verbatim>\<open>callback = Hoek.once(callback)\<close>: the wrapper runs the wrapped function on its
  first call only.
\<close>

definition callback_once :: "outcome \<Rightarrow> start_state \<Rightarrow> start_state" where
  "callback_once r s =
     (if called s then s else s\<lparr> called := True, fired := fired s @ [r] \<rparr>)"

text \<open>
  \<^verbatim>\<open>start\<close> up to its return. With a client already present the callback is scheduled
  by \<^verbatim>\<open>Hoek.nextTick\<close> and no listener is registered; otherwise the client is
  created and both listeners are registered.
\<close>

definition start :: "connection \<Rightarrow> start_state" where
  "start this =
     (let s0 = \<lparr> self = this, new_client = None, on_error = False, once_ready = False,
                 called = False, fired = [], client_calls = [] \<rparr>
      in if client this \<noteq> None then callback_once Done s0
         else s0\<lparr> new_client := Some (Redis_createClient (createClient_call (settings this))),
                  on_error := True,
                  once_ready := True \<rparr>)"

text \<open>The events the underlying client emits.\<close>

datatype event = ErrorEv error | ReadyEv

text \<open>
  The two listeners. The \<^verbatim>\<open>'error'\<close> listener stays registered; the
  \<^verbatim>\<open>'ready'\<close> listener is registered with \<^verbatim>\<open>once\<close> and is removed when it runs.
  The client emits \<^verbatim>\<open>'ready'\<close> with its status set to ready.
\<close>

fun step :: "start_state \<Rightarrow> event \<Rightarrow> start_state" where
  "step s (ErrorEv err) =
     (if on_error s then
        (if client (self s) = None then
           callback_once (Fail err) (s\<lparr> client_calls := client_calls s @ [End False] \<rparr>)
         else s)
      else s)"
| "step s ReadyEv =
     (if once_ready s then
        callback_once Done
          (s\<lparr> once_ready := False,
               self := (self s)\<lparr> client :=
                 map_option (\<lambda>c. c\<lparr> status := ''ready'' \<rparr>) (new_client s) \<rparr> \<rparr>)
      else s)"

text \<open>The events of a whole run, in the order they arrive.\<close>

definition run :: "start_state \<Rightarrow> event list \<Rightarrow> start_state" where
  "run s evs = foldl step s evs"

section \<open>stop and isReady\<close>

text \<open>\<^verbatim>\<open>stop\<close> returns the updated adapter and the calls it made on the client.\<close>

definition stop :: "connection \<Rightarrow> connection \<times> client_call list" where
  "stop this =
     (case client this of
        None \<Rightarrow> (this, [])
      | Some c \<Rightarrow> (this\<lparr> client := None \<rparr>, [RemoveAllListeners, Quit]))"

definition isReady :: "connection \<Rightarrow> bool" where
  "isReady this =
     (case client this of
        None \<Rightarrow> False
      | Some c \<Rightarrow> status c = ''ready'')"


section \<open>get\<close>

text \<open>\<^verbatim>\<open>get\<close> up to the call of \<^verbatim>\<open>getBuffer\<close>.\<close>

definition get :: "connection \<Rightarrow> key \<Rightarrow> effect" where
  "get this k =
     (if client this = None then Callback (Fail (Error ''Connection not started''))
      else Issue (GetBuffer (generateKey this k)))"

text \<open>
  The body of the \<^verbatim>\<open>try\<close> block: decompress, convert to a string, parse. Whatever is
  thrown is caught and leaves \<^verbatim>\<open>envelope\<close> at its initial \<^verbatim>\<open>null\<close>.
\<close>

definition decode_envelope :: "codec \<Rightarrow> buffer \<Rightarrow> jsval" where
  "decode_envelope cd result =
     (case LZ4_decode cd result of
        Inl e \<Rightarrow> JNull
      | Inr uncompressedResult \<Rightarrow>
          (case JSON_parse cd (Buffer_toString cd uncompressedResult) of
             Inl e \<Rightarrow> JNull
           | Inr v \<Rightarrow> v))"

text \<open>
  The checks on \<^verbatim>\<open>envelope\<close> after the \<^verbatim>\<open>try\<close> block (lines 146 to 156).
  \<^verbatim>\<open>!envelope.item || !envelope.stored\<close> evaluates \<^verbatim>\<open>envelope.stored\<close> only when
  the item is truthy.
\<close>

definition validate_envelope :: "jsval \<Rightarrow> effect" where
  "validate_envelope envelope =
     (if \<not> truthy envelope then Callback (Fail (Error ''Bad envelope content''))
      else
        (case get_prop envelope ''item'' of
           Inl e \<Rightarrow> Throws e
         | Inr item \<Rightarrow>
             if \<not> truthy item then Callback (Fail (Error ''Incorrect envelope structure''))
             else
               (case get_prop envelope ''stored'' of
                  Inl e \<Rightarrow> Throws e
                | Inr stored \<Rightarrow>
                    if \<not> truthy stored then
                      Callback (Fail (Error ''Incorrect envelope structure''))
                    else Callback (Result envelope))))"

text \<open>
  The continuation \<^verbatim>\<open>(err, result) => ...\<close> handed to \<^verbatim>\<open>getBuffer\<close>. The store
  replies with an error, with \<^verbatim>\<open>null\<close> (\<open>None\<close>), or with a Buffer; a Buffer is an
  object and so is truthy whatever its length.
\<close>

definition get_reply :: "codec \<Rightarrow> error option \<Rightarrow> buffer option \<Rightarrow> effect" where
  "get_reply cd err result =
     (case err of
        Some e \<Rightarrow> Callback (Fail e)
      | None \<Rightarrow>
          (case result of
             None \<Rightarrow> Callback (Result JNull)
           | Some buf \<Rightarrow> validate_envelope (decode_envelope cd buf)))"

section \<open>set\<close>

text \<open>The object literal \<^verbatim>\<open>{ item: value, stored: Date.now(), ttl }\<close>.\<close>

definition envelope_of :: "jsval \<Rightarrow> int \<Rightarrow> jsval \<Rightarrow> jsval" where
  "envelope_of v now ttl = JObj [(''item'', v), (''stored'', JNum now), (''ttl'', ttl)]"

text \<open>
  \<^verbatim>\<open>set\<close> up to the call of \<^verbatim>\<open>psetex\<close>; \<open>now\<close> is the value of \<^verbatim>\<open>Date.now()\<close>.
  An exception of the serializer or of the compressor is caught and handed to the
  callback.
\<close>

definition set_op :: "codec \<Rightarrow> connection \<Rightarrow> key \<Rightarrow> jsval \<Rightarrow> jsval \<Rightarrow> int \<Rightarrow> effect" where
  "set_op cd this k v ttl now =
     (if client this = None then Callback (Fail (Error ''Connection not started''))
      else
        (let envelope = envelope_of v now ttl;
             cacheKey = generateKey this k
         in case JSON_stringify cd envelope of
              Inl e \<Rightarrow> Callback (Fail e)
            | Inr stringifiedEnvelope \<Rightarrow>
                (case LZ4_encode cd (Buffer_from cd stringifiedEnvelope) of
                   Inl e \<Rightarrow> Callback (Fail e)
                 | Inr compressedEnvelope \<Rightarrow>
                     Issue (Psetex cacheKey ttl compressedEnvelope))))"

text \<open>The continuation \<^verbatim>\<open>(err) => { if (err) { return callback(err); } }\<close> of \<^verbatim>\<open>psetex\<close>.\<close>

definition set_reply :: "error option \<Rightarrow> effect" where
  "set_reply err =
     (case err of
        Some e \<Rightarrow> Callback (Fail e)
      | None \<Rightarrow> NoCallback)"

section \<open>drop\<close>


text \<open>The continuation \<^verbatim>\<open>(err) => callback(err)\<close> of \<^verbatim>\<open>del\<close>.\<close>

definition drop_reply :: "error option \<Rightarrow> effect" where
  "drop_reply err =
     (case err of
        Some e \<Rightarrow> Callback (Fail e)
      | None \<Rightarrow> Callback Done)"

section \<open>Notions used in the statements\<close>

text \<open>The bytes that a run of \<^verbatim>\<open>set\<close> hands to the store, if it reaches \<^verbatim>\<open>psetex\<close>.\<close>

definition stored_payload :: "effect \<Rightarrow> buffer option" where
  "stored_payload e = (case e of Issue (Psetex k t p) \<Rightarrow> Some p | _ \<Rightarrow> None)"

text \<open>\<^verbatim>\<open>v.k\<close> can be read and is truthy.\<close>

definition field_truthy :: "jsval \<Rightarrow> string \<Rightarrow> bool" where
  "field_truthy v k = (case get_prop v k of Inl e \<Rightarrow> False | Inr x \<Rightarrow> truthy x)"

text \<open>The options argument of a call of \<^verbatim>\<open>Redis.createClient\<close>.\<close>

definition call_options :: "create_call \<Rightarrow> client_options" where
  "call_options c =
     (case c of
        CreateSentinel opts \<Rightarrow> opts
      | CreateUrl u opts \<Rightarrow> opts
      | CreateSocket p opts \<Rightarrow> opts
      | CreateHostPort p h opts \<Rightarrow> opts)"

section \<open>A sample environment\<close>

text \<open>
  Concrete stand-ins for the libraries, used to run the adapter on examples: a
  serializer and a parser that know three envelopes, the byte conversion of ASCII
  text, and a framing codec that prefixes the four bytes of the LZ4 frame magic number
  and rejects input without them.
\<close>

definition sample_table :: "(jsval \<times> string) list" where
  \<open>sample_table =
     [(JObj [(''item'', JObj [(''name'', JStr ''Ann'')]), (''stored'', JNum 1000),
             (''ttl'', JNum 5000)],
       ''{"item":{"name":"Ann"},"stored":1000,"ttl":5000}''),
      (JObj [(''item'', JNum 0), (''stored'', JNum 1000), (''ttl'', JNum 5000)],
       ''{"item":0,"stored":1000,"ttl":5000}''),
      (JObj [(''stored'', JNum 1000), (''ttl'', JNum 5000)],
       ''{"stored":1000,"ttl":5000}'')]\<close>

definition sample_stringify :: "jsval \<Rightarrow> error + string" where
  "sample_stringify v =
     (case map_of sample_table v of
        None \<Rightarrow> Inl (Error ''TypeError: Converting circular structure to JSON'')
      | Some s \<Rightarrow> Inr s)"

definition sample_parse :: "string \<Rightarrow> error + jsval" where
  "sample_parse s =
     (case map_of (map (\<lambda>(v, t). (t, v)) sample_table) s of
        None \<Rightarrow> Inl (Error ''SyntaxError: Unexpected token'')
      | Some v \<Rightarrow> Inr v)"

definition sample_magic :: buffer where
  "sample_magic = [0x04, 0x22, 0x4D, 0x18]"

definition sample_codec :: codec where
  "sample_codec =
     \<lparr> JSON_stringify = sample_stringify,
       JSON_parse = sample_parse,
       Buffer_from = map (\<lambda>c. of_nat (of_char c)),
       Buffer_toString = map (\<lambda>w. char_of (unat w)),
       LZ4_encode = (\<lambda>b. Inr (sample_magic @ b)),
       LZ4_decode = (\<lambda>b. if take 4 b = sample_magic then Inr (List.drop 4 b)
                            else Inl (Error ''Invalid magic number'')) \<rparr>"

text \<open>The framed bytes of a string under the sample codec.\<close>

definition sample_bytes :: "string \<Rightarrow> buffer" where
  "sample_bytes s = sample_magic @ Buffer_from sample_codec s"

definition no_options :: options where
  "no_options =
     \<lparr> opt_host = None, opt_port = None, opt_url = None, opt_socket = None,
       opt_sentinels = None, opt_sentinelName = None, opt_password = None,
       opt_database = None, opt_db = None, opt_partition = None \<rparr>"

text \<open>An adapter constructed around a client that the caller supplies.\<close>

definition sample_connection :: connection where
  "sample_connection = Connection no_options (Some \<lparr> origin = None, status = ''ready'' \<rparr>)"

definition sample_key :: key where
  "sample_key = \<lparr> segment = ''users'', id_part = ''1'' \<rparr>"

section \<open>Helper lemmas\<close>

lemma indexOf_ge: "- 1 \<le> indexOf xs c"
  by (induction xs) (auto simp: Let_def)

lemma indexOf_absent: "indexOf xs c = - 1 \<longleftrightarrow> c \<notin> set xs"
proof (induction xs)
  case Nil
  show ?case by simp
next
  case (Cons x xs)
  have "- 1 \<le> indexOf xs c" by (rule indexOf_ge)
  then have "indexOf xs c + 1 \<noteq> - 1" by arith
  with Cons show ?case by (auto simp: Let_def)
qed

lemma generateKey_unfold:
  "generateKey this k =
     (case partition_str (settings this) of
        None \<Rightarrow> segment k @ '':'' @ id_part k
      | Some p \<Rightarrow> if p \<noteq> [] then p @ '':'' @ segment k @ '':'' @ id_part k
                  else segment k @ '':'' @ id_part k)"
  by (simp add: generateKey_def partition_parts_def split: option.splits)

text \<open>Once the wrapper of \<^verbatim>\<open>Hoek.once\<close> has run, no event adds an invocation.\<close>

lemma step_called: "called s \<Longrightarrow> called (step s ev) \<and> fired (step s ev) = fired s"
  by (cases ev) (simp_all add: callback_once_def)

lemma run_called: "called s \<Longrightarrow> fired (run s evs) = fired s"
  unfolding run_def
  by (induction evs arbitrary: s) (simp_all add: step_called)

text \<open>The invariant of the event loop: an invocation is recorded only with the flag set.\<close>

lemma step_inv:
  "(fired s = [] \<or> called s) \<and> length (fired s) \<le> 1 \<Longrightarrow>
   (fired (step s ev) = [] \<or> called (step s ev)) \<and> length (fired (step s ev)) \<le> 1"
  by (cases ev) (auto simp: callback_once_def)

lemma run_inv:
  "(fired s = [] \<or> called s) \<and> length (fired s) \<le> 1 \<Longrightarrow> length (fired (run s evs)) \<le> 1"
  unfolding run_def
proof (induction evs arbitrary: s)
  case Nil
  then show ?case by simp
next
  case (Cons ev evs)
  have "(fired (step s ev) = [] \<or> called (step s ev)) \<and> length (fired (step s ev)) \<le> 1"
    using Cons.prems by (rule step_inv)
  then show ?case using Cons.IH by simp
qed

lemma stop_client: "client (fst (stop this)) = None"
  by (simp add: stop_def split: option.splits)

lemma stops_client: "0 < n \<Longrightarrow> client (((fst \<circ> stop) ^^ n) this) = None"
  by (cases n) (simp_all add: stop_client)





lemma validate_cases:
  "validate_envelope p =
     (if \<not> truthy p then Callback (Fail (Error ''Bad envelope content''))
      else if field_truthy p ''item'' \<and> field_truthy p ''stored'' then Callback (Result p)
      else Callback (Fail (Error ''Incorrect envelope structure'')))"
  by (cases p) (simp_all add: validate_envelope_def field_truthy_def)

lemma validate_total:
  "validate_envelope p \<noteq> Throws x \<and> validate_envelope p \<noteq> Callback (Result JNull)"
  by (cases p) (simp_all add: validate_envelope_def)

lemma field_truthy_has_field:
  "k \<noteq> ''length'' \<Longrightarrow> field_truthy p k \<Longrightarrow> has_field p k"
  by (cases p) (auto simp: field_truthy_def split: option.splits)

lemma has_field_truthy: "has_field p k \<Longrightarrow> truthy p"
  by (cases p) simp_all

lemma decode_ok:
  "LZ4_decode cd b = Inr u \<Longrightarrow> JSON_parse cd (Buffer_toString cd u) = Inr p \<Longrightarrow>
   decode_envelope cd b = p"
  by (simp add: decode_envelope_def)

lemma call_options_createClient:
  "call_options (createClient_call s) =
     (if has_sentinels s then
        \<lparr> co_password = password s, co_db = js_or (database s) (db s),
          co_sentinels = Some (sentinels s), co_name = Some (sentinelName s) \<rparr>
      else \<lparr> co_password = password s, co_db = js_or (database s) (db s),
             co_sentinels = None, co_name = None \<rparr>)"
  by (simp add: createClient_call_def call_options_def Let_def)

subsection \<open>The sample environment\<close>

lemma sample_lz4: "LZ4_encode sample_codec b = Inr c \<Longrightarrow> LZ4_decode sample_codec c = Inr b"
  by (auto simp: sample_codec_def sample_magic_def)

lemma sample_utf8: "Buffer_toString sample_codec (Buffer_from sample_codec s) = s"
  by (induction s) (simp_all add: sample_codec_def unat_of_nat)

lemma sample_unframe:
  "LZ4_decode sample_codec (sample_bytes s) = Inr (Buffer_from sample_codec s)"
  by (simp add: sample_bytes_def sample_codec_def sample_magic_def)

lemma sample_get:
  "get_reply sample_codec None (Some (sample_bytes s)) =
     validate_envelope (case sample_parse s of Inl e \<Rightarrow> JNull | Inr v \<Rightarrow> v)"
proof -
  have "JSON_parse sample_codec = sample_parse"
    by (simp add: sample_codec_def)
  then show ?thesis
    by (simp add: get_reply_def decode_envelope_def sample_unframe sample_utf8)
qed

lemma sample_set:
  "sample_stringify (envelope_of v now ttl) = Inr s \<Longrightarrow>
   set_op sample_codec sample_connection k v ttl now =
     Issue (Psetex (generateKey sample_connection k) ttl (sample_bytes s))"
  by (simp add: set_op_def sample_bytes_def sample_connection_def Connection_def
        sample_codec_def Let_def)

lemma sample_generateKey: "generateKey sample_connection sample_key = ''users:1''"
  by (simp add: generateKey_def partition_parts_def sample_connection_def Connection_def
        no_options_def sample_key_def)

lemma sample_stringify_Ann:
  "sample_stringify (envelope_of (JObj [(''name'', JStr ''Ann'')]) 1000 (JNum 5000))
     = Inr ''{\"item\":{\"name\":\"Ann\"},\"stored\":1000,\"ttl\":5000}''"
  by (simp add: sample_stringify_def sample_table_def envelope_of_def)

lemma sample_parse_Ann:
  "sample_parse ''{\"item\":{\"name\":\"Ann\"},\"stored\":1000,\"ttl\":5000}''
     = Inr (JObj [(''item'', JObj [(''name'', JStr ''Ann'')]), (''stored'', JNum 1000),
                  (''ttl'', JNum 5000)])"
  by (simp add: sample_parse_def sample_table_def)

lemma sample_stringify_zero:
  "sample_stringify (envelope_of (JNum 0) 1000 (JNum 5000))
     = Inr ''{\"item\":0,\"stored\":1000,\"ttl\":5000}''"
  by (simp add: sample_stringify_def sample_table_def envelope_of_def)

lemma sample_parse_zero:
  "sample_parse ''{\"item\":0,\"stored\":1000,\"ttl\":5000}''
     = Inr (JObj [(''item'', JNum 0), (''stored'', JNum 1000), (''ttl'', JNum 5000)])"
  by (simp add: sample_parse_def sample_table_def)

lemma sample_parse_no_item:
  "sample_parse ''{\"stored\":1000,\"ttl\":5000}''
     = Inr (JObj [(''stored'', JNum 1000), (''ttl'', JNum 5000)])"
  by (simp add: sample_parse_def sample_table_def)

lemma sample_parse_truncated:
  "sample_parse ''{\"item\":'' = Inl (Error ''SyntaxError: Unexpected token'')"
  by (simp add: sample_parse_def sample_table_def)

lemma sample_parse_codec: "JSON_parse sample_codec = sample_parse"
  by (simp add: sample_codec_def)

lemma sample_stringify_codec: "JSON_stringify sample_codec = sample_stringify"
  by (simp add: sample_codec_def)

section \<open>The envelope round trip\<close>

text \<open>
  C1, as the code has it. Let the compressor be lossless, the byte conversion of
  strings be lossless, and the serializer round-trip the envelope built for the value
  \<open>v\<close>, a timestamp \<open>now \<noteq> 0\<close> and a ttl \<open>t > 0\<close>. If \<^verbatim>\<open>set\<close> reaches the store
  write, then feeding the written bytes to the reply handler of \<^verbatim>\<open>get\<close> returns the
  envelope, whose item is \<open>v\<close> and whose ttl is \<open>t\<close>, exactly when \<open>v\<close> is truthy; for a
  falsy \<open>v\<close> the handler reports the error 'Incorrect envelope structure'.
\<close>

theorem envelope_round_trip:
  assumes lz4: "\<And>b c. LZ4_encode cd b = Inr c \<Longrightarrow> LZ4_decode cd c = Inr b"
      and utf8: "\<And>s. Buffer_toString cd (Buffer_from cd s) = s"
      and json: "\<And>s. JSON_stringify cd (envelope_of v now (JNum t)) = Inr s \<Longrightarrow>
                      JSON_parse cd s = Inr (envelope_of v now (JNum t))"
      and now: "now \<noteq> 0" and t: "0 < t"
      and issued: "stored_payload (set_op cd this k v (JNum t) now) \<noteq> None"
  shows "get_reply cd None (stored_payload (set_op cd this k v (JNum t) now))
           = (if truthy v then Callback (Result (envelope_of v now (JNum t)))
              else Callback (Fail (Error ''Incorrect envelope structure'')))
         \<and> get_prop (envelope_of v now (JNum t)) ''item'' = Inr v
         \<and> get_prop (envelope_of v now (JNum t)) ''ttl'' = Inr (JNum t)"
proof -
  let ?env = "envelope_of v now (JNum t)"
  from issued obtain s where s: "JSON_stringify cd ?env = Inr s"
    by (cases "JSON_stringify cd ?env")
       (auto simp: set_op_def stored_payload_def Let_def split: if_splits)
  from issued s obtain c where c: "LZ4_encode cd (Buffer_from cd s) = Inr c"
    by (cases "LZ4_encode cd (Buffer_from cd s)")
       (auto simp: set_op_def stored_payload_def Let_def split: if_splits)
  from issued s c have sent: "stored_payload (set_op cd this k v (JNum t) now) = Some c"
    by (auto simp: set_op_def stored_payload_def Let_def split: if_splits)
  have d: "LZ4_decode cd c = Inr (Buffer_from cd s)" using c by (rule lz4)
  have p: "JSON_parse cd (Buffer_toString cd (Buffer_from cd s)) = Inr ?env"
    using json [OF s] by (simp add: utf8)
  have "decode_envelope cd c = ?env" using d p by (rule decode_ok)
  moreover have "validate_envelope ?env =
      (if truthy v then Callback (Result ?env)
       else Callback (Fail (Error ''Incorrect envelope structure'')))"
    using now by (simp add: validate_envelope_def envelope_of_def)
  ultimately have "get_reply cd None (Some c) =
      (if truthy v then Callback (Result ?env)
       else Callback (Fail (Error ''Incorrect envelope structure'')))"
    by (simp add: get_reply_def)
  then show ?thesis using sent by (simp add: envelope_of_def)
qed

text \<open>
  Witness for C1: the value \<^verbatim>\<open>{name: "Ann"}\<close> written with ttl 5000 at time 1000 under
  the sample environment comes back as the envelope that was written.
\<close>

theorem envelope_round_trip_witness:
  "get_reply sample_codec None
     (stored_payload (set_op sample_codec sample_connection sample_key
        (JObj [(''name'', JStr ''Ann'')]) (JNum 5000) 1000))
   = Callback (Result (JObj [(''item'', JObj [(''name'', JStr ''Ann'')]),
                             (''stored'', JNum 1000), (''ttl'', JNum 5000)]))"
proof -
  let ?v = "JObj [(''name'', JStr ''Ann'')]"
  have json: "JSON_parse sample_codec s = Inr (envelope_of ?v 1000 (JNum 5000))"
    if "JSON_stringify sample_codec (envelope_of ?v 1000 (JNum 5000)) = Inr s" for s
  proof -
    from that have "s = ''{\"item\":{\"name\":\"Ann\"},\"stored\":1000,\"ttl\":5000}''"
      by (simp add: sample_stringify_codec sample_stringify_Ann)
    then show ?thesis
      by (simp add: sample_parse_codec sample_parse_Ann envelope_of_def)
  qed
  have issued: "stored_payload (set_op sample_codec sample_connection sample_key ?v (JNum 5000) 1000)
                  \<noteq> None"
    by (simp add: sample_set [OF sample_stringify_Ann] stored_payload_def)
  have "(1000::int) \<noteq> 0" and "(0::int) < 5000" by simp_all
  from envelope_round_trip [of sample_codec ?v 1000 5000 sample_connection sample_key,
      OF sample_lz4 sample_utf8 json this issued]
  show ?thesis by (simp add: envelope_of_def)
qed

text \<open>
  Counterexample to C1 as stated: the falsy value \<open>0\<close> is written (the serializer and
  the parser round-trip its envelope), and reading the written bytes back reports
  'Incorrect envelope structure' instead of the envelope.
\<close>

theorem falsy_item_rejected:
  "truthy (JNum 0) = False
   \<and> JSON_stringify sample_codec (envelope_of (JNum 0) 1000 (JNum 5000))
        = Inr ''{\"item\":0,\"stored\":1000,\"ttl\":5000}''
   \<and> JSON_parse sample_codec ''{\"item\":0,\"stored\":1000,\"ttl\":5000}''
        = Inr (envelope_of (JNum 0) 1000 (JNum 5000))
   \<and> set_op sample_codec sample_connection sample_key (JNum 0) (JNum 5000) 1000
        = Issue (Psetex ''users:1'' (JNum 5000)
            (sample_bytes ''{\"item\":0,\"stored\":1000,\"ttl\":5000}''))
   \<and> get_reply sample_codec None
        (Some (sample_bytes ''{\"item\":0,\"stored\":1000,\"ttl\":5000}''))
        = Callback (Fail (Error ''Incorrect envelope structure''))"
proof -
  have "set_op sample_codec sample_connection sample_key (JNum 0) (JNum 5000) 1000
        = Issue (Psetex ''users:1'' (JNum 5000)
            (sample_bytes ''{\"item\":0,\"stored\":1000,\"ttl\":5000}''))"
    by (simp only: sample_set [OF sample_stringify_zero] sample_generateKey)
  moreover have "get_reply sample_codec None
        (Some (sample_bytes ''{\"item\":0,\"stored\":1000,\"ttl\":5000}''))
        = Callback (Fail (Error ''Incorrect envelope structure''))"
    by (simp add: sample_get sample_parse_zero validate_envelope_def)
  moreover have "JSON_stringify sample_codec (envelope_of (JNum 0) 1000 (JNum 5000))
        = Inr ''{\"item\":0,\"stored\":1000,\"ttl\":5000}''"
    by (simp add: sample_stringify_codec sample_stringify_zero)
  moreover have "JSON_parse sample_codec ''{\"item\":0,\"stored\":1000,\"ttl\":5000}''
        = Inr (envelope_of (JNum 0) 1000 (JNum 5000))"
    by (simp add: sample_parse_codec sample_parse_zero envelope_of_def)
  moreover have "truthy (JNum 0) = False"
    by simp
  ultimately show ?thesis
    by blast
qed

section \<open>Completion of start\<close>

text \<open>
  C2. Whatever sequence of 'error' and 'ready' events the underlying client emits
  after \<^verbatim>\<open>start\<close>, the completion callback is invoked at most once. When no client was
  supplied and the first event is an error, the callback is invoked exactly once, with
  that error, whatever events follow.
\<close>

theorem start_callback_once:
  "length (fired (run (start this) evs)) \<le> 1
   \<and> (client this = None \<longrightarrow> fired (run (start this) (ErrorEv e # evs)) = [Fail e])"
proof
  have "(fired (start this) = [] \<or> called (start this)) \<and> length (fired (start this)) \<le> 1"
    by (simp add: start_def Let_def callback_once_def)
  then show "length (fired (run (start this) evs)) \<le> 1" by (rule run_inv)
next
  show "client this = None \<longrightarrow> fired (run (start this) (ErrorEv e # evs)) = [Fail e]"
  proof
    assume none: "client this = None"
    let ?s = "step (start this) (ErrorEv e)"
    have c: "called ?s" and f: "fired ?s = [Fail e]"
      using none by (simp_all add: start_def Let_def callback_once_def)
    have "fired (run ?s evs) = fired ?s" using c by (rule run_called)
    then show "fired (run (start this) (ErrorEv e # evs)) = [Fail e]"
      using f by (simp add: run_def)
  qed
qed

text \<open>
  Witness for C2: an error followed by two ready events completes \<^verbatim>\<open>start\<close> once,
  with the error; a ready event followed by an error and a ready event completes it at
  most once.
\<close>

theorem start_callback_once_witness:
  "fired (run (start (Connection no_options None))
       [ErrorEv (Error ''ECONNREFUSED''), ReadyEv, ReadyEv])
     = [Fail (Error ''ECONNREFUSED'')]
   \<and> length (fired (run (start (Connection no_options None))
        [ReadyEv, ErrorEv (Error ''ECONNRESET''), ReadyEv])) \<le> 1"
  using
    start_callback_once [of "Connection no_options None" "[ReadyEv, ReadyEv]"
      "Error ''ECONNREFUSED''"]
    start_callback_once [of "Connection no_options None"
      "[ReadyEv, ErrorEv (Error ''ECONNRESET''), ReadyEv]"]
  by (simp add: Connection_def)

section \<open>Completion of set\<close>

text \<open>
  C3, evaluated on the code. A \<^verbatim>\<open>set\<close> of \<^verbatim>\<open>{name: "Ann"}\<close> on an active connection
  reaches the store write; when the store then reports success, the continuation
  returns without invoking the callback. The continuation of \<^verbatim>\<open>drop\<close> invokes its
  callback in the same situation.
\<close>

theorem set_success_never_calls_back:
  "set_op sample_codec sample_connection sample_key (JObj [(''name'', JStr ''Ann'')])
       (JNum 5000) 1000
     = Issue (Psetex ''users:1'' (JNum 5000)
         (sample_bytes ''{\"item\":{\"name\":\"Ann\"},\"stored\":1000,\"ttl\":5000}''))
   \<and> set_reply None = NoCallback
   \<and> drop_reply None = Callback Done"
proof -
  have "set_op sample_codec sample_connection sample_key (JObj [(''name'', JStr ''Ann'')])
        (JNum 5000) 1000
     = Issue (Psetex ''users:1'' (JNum 5000)
         (sample_bytes ''{\"item\":{\"name\":\"Ann\"},\"stored\":1000,\"ttl\":5000}''))"
    by (simp only: sample_set [OF sample_stringify_Ann] sample_generateKey)
  then show ?thesis by (simp add: set_reply_def drop_reply_def)
qed

section \<open>Validation of a parsed envelope\<close>

text \<open>
  C4, as the code has it. A payload that decompresses and parses successfully to \<open>p\<close>
  is answered with 'Bad envelope content' when \<open>p\<close> is falsy, with \<open>p\<close> itself when
  \<^verbatim>\<open>p.item\<close> and \<^verbatim>\<open>p.stored\<close> both read as truthy values, and with 'Incorrect
  envelope structure' otherwise. So it is accepted exactly when both fields hold
  truthy values, and then both fields exist. When either field is missing the callback
  receives 'Incorrect envelope structure' for a truthy \<open>p\<close> and 'Bad envelope content'
  for a falsy one; the reply to a parsed payload is never the miss
  \<^verbatim>\<open>callback(null, null)\<close>.
\<close>

theorem get_envelope_validation:
  assumes d: "LZ4_decode cd b = Inr u"
      and p: "JSON_parse cd (Buffer_toString cd u) = Inr p"
  shows "get_reply cd None (Some b)
           = (if \<not> truthy p then Callback (Fail (Error ''Bad envelope content''))
              else if field_truthy p ''item'' \<and> field_truthy p ''stored''
                then Callback (Result p)
              else Callback (Fail (Error ''Incorrect envelope structure'')))
         \<and> ((get_reply cd None (Some b) = Callback (Result p))
            \<longleftrightarrow> (field_truthy p ''item'' \<and> field_truthy p ''stored''))
         \<and> (field_truthy p ''item'' \<and> field_truthy p ''stored''
              \<longrightarrow> has_field p ''item'' \<and> has_field p ''stored'')
         \<and> (\<not> has_field p ''item'' \<or> \<not> has_field p ''stored''
              \<longrightarrow> get_reply cd None (Some b)
                    = (if truthy p then Callback (Fail (Error ''Incorrect envelope structure''))
                       else Callback (Fail (Error ''Bad envelope content''))))
         \<and> get_reply cd None (Some b) \<noteq> Callback (Result JNull)"
proof -
  have g: "get_reply cd None (Some b) = validate_envelope p"
    using decode_ok [OF d p] by (simp add: get_reply_def)
  have i: "field_truthy p ''item'' \<Longrightarrow> has_field p ''item''"
    by (rule field_truthy_has_field) simp_all
  have s: "field_truthy p ''stored'' \<Longrightarrow> has_field p ''stored''"
    by (rule field_truthy_has_field) simp_all
  show ?thesis
    unfolding g validate_cases using i s has_field_truthy [of p "''item''"] by auto
qed

text \<open>
  Witness for C4: the framed envelope of \<^verbatim>\<open>{name: "Ann"}\<close> is accepted, and a framed
  object without an item field is reported as 'Incorrect envelope structure'.
\<close>

theorem get_envelope_validation_witness:
  "get_reply sample_codec None
     (Some (sample_bytes ''{\"item\":{\"name\":\"Ann\"},\"stored\":1000,\"ttl\":5000}''))
     = Callback (Result (JObj [(''item'', JObj [(''name'', JStr ''Ann'')]),
                               (''stored'', JNum 1000), (''ttl'', JNum 5000)]))
   \<and> get_reply sample_codec None (Some (sample_bytes ''{\"stored\":1000,\"ttl\":5000}''))
     = Callback (Fail (Error ''Incorrect envelope structure''))"
proof -
  let ?s1 = "''{\"item\":{\"name\":\"Ann\"},\"stored\":1000,\"ttl\":5000}''"
  let ?p1 = "JObj [(''item'', JObj [(''name'', JStr ''Ann'')]),
                   (''stored'', JNum 1000), (''ttl'', JNum 5000)]"
  let ?s2 = "''{\"stored\":1000,\"ttl\":5000}''"
  let ?p2 = "JObj [(''stored'', JNum 1000), (''ttl'', JNum 5000)]"
  have p1: "JSON_parse sample_codec (Buffer_toString sample_codec (Buffer_from sample_codec ?s1))
              = Inr ?p1"
    unfolding sample_utf8 by (simp add: sample_parse_codec sample_parse_Ann)
  have p2: "JSON_parse sample_codec (Buffer_toString sample_codec (Buffer_from sample_codec ?s2))
              = Inr ?p2"
    unfolding sample_utf8 by (simp add: sample_parse_codec sample_parse_no_item)
  have f1: "field_truthy ?p1 ''item'' \<and> field_truthy ?p1 ''stored''"
    by (simp add: field_truthy_def)
  have f2: "\<not> has_field ?p2 ''item''"
    by simp
  note a = get_envelope_validation [OF sample_unframe p1]
  note b = get_envelope_validation [OF sample_unframe p2]
  from conjunct1 [OF conjunct2 [OF a]] f1
  have r1: "get_reply sample_codec None (Some (sample_bytes ?s1)) = Callback (Result ?p1)"
    by blast
  from conjunct1 [OF conjunct2 [OF conjunct2 [OF conjunct2 [OF b]]]] f2
  have r2: "get_reply sample_codec None (Some (sample_bytes ?s2))
              = Callback (Fail (Error ''Incorrect envelope structure''))"
    by simp
  from r1 r2 show ?thesis by blast
qed

text \<open>
  Counterexample to C4 as stated: a payload that decompresses and parses to an object
  in which both the item field (holding \<open>0\<close>) and the stored field exist is rejected
  with 'Incorrect envelope structure'.
\<close>

theorem falsy_item_field_exists_but_rejected:
  "LZ4_decode sample_codec (sample_bytes ''{\"item\":0,\"stored\":1000,\"ttl\":5000}'')
     = Inr (Buffer_from sample_codec ''{\"item\":0,\"stored\":1000,\"ttl\":5000}'')
   \<and> JSON_parse sample_codec (Buffer_toString sample_codec
        (Buffer_from sample_codec ''{\"item\":0,\"stored\":1000,\"ttl\":5000}''))
     = Inr (JObj [(''item'', JNum 0), (''stored'', JNum 1000), (''ttl'', JNum 5000)])
   \<and> has_field (JObj [(''item'', JNum 0), (''stored'', JNum 1000), (''ttl'', JNum 5000)]) ''item''
   \<and> has_field (JObj [(''item'', JNum 0), (''stored'', JNum 1000), (''ttl'', JNum 5000)]) ''stored''
   \<and> get_reply sample_codec None
        (Some (sample_bytes ''{\"item\":0,\"stored\":1000,\"ttl\":5000}''))
     = Callback (Fail (Error ''Incorrect envelope structure''))"
proof -
  let ?s = "''{\"item\":0,\"stored\":1000,\"ttl\":5000}''"
  have "LZ4_decode sample_codec (sample_bytes ?s) = Inr (Buffer_from sample_codec ?s)"
    by (rule sample_unframe)
  moreover have "JSON_parse sample_codec (Buffer_toString sample_codec (Buffer_from sample_codec ?s))
     = Inr (JObj [(''item'', JNum 0), (''stored'', JNum 1000), (''ttl'', JNum 5000)])"
    unfolding sample_utf8 by (simp add: sample_parse_codec sample_parse_zero)
  moreover have "get_reply sample_codec None (Some (sample_bytes ?s))
     = Callback (Fail (Error ''Incorrect envelope structure''))"
    by (simp add: sample_get sample_parse_zero validate_envelope_def)
  ultimately show ?thesis by simp
qed

section \<open>Miss and corruption\<close>

text \<open>
  C5, as the code has it. On an active connection \<^verbatim>\<open>get\<close> asks the store for the
  bytes. When the store replies with no error and \<^verbatim>\<open>null\<close>, the callback receives a
  null result and no error. When it replies with a Buffer, of any length, whose
  decompression or parsing fails, the callback receives the error 'Bad envelope
  content'. A Buffer reply is never answered as a miss; no reply makes the handler
  throw or return without calling back; and an envelope that is returned carries a
  truthy item field and a truthy stored field.
\<close>

theorem get_miss_and_corruption:
  "(client this \<noteq> None \<longrightarrow> get this k = Issue (GetBuffer (generateKey this k)))
   \<and> get_reply cd None None = Callback (Result JNull)
   \<and> (LZ4_decode cd b = Inl e
        \<longrightarrow> get_reply cd None (Some b) = Callback (Fail (Error ''Bad envelope content'')))
   \<and> (LZ4_decode cd b = Inr u \<and> JSON_parse cd (Buffer_toString cd u) = Inl e
        \<longrightarrow> get_reply cd None (Some b) = Callback (Fail (Error ''Bad envelope content'')))
   \<and> get_reply cd None (Some b) \<noteq> Callback (Result JNull)
   \<and> get_reply cd err result \<noteq> Throws x
   \<and> get_reply cd err result \<noteq> NoCallback
   \<and> (get_reply cd None (Some b) = Callback (Result env)
        \<longrightarrow> has_field env ''item'' \<and> has_field env ''stored''
          \<and> field_truthy env ''item'' \<and> field_truthy env ''stored'')"
proof -
  have a: "get_reply cd None (Some b) = validate_envelope (decode_envelope cd b)"
    by (simp add: get_reply_def)
  have i: "\<And>p. field_truthy p ''item'' \<Longrightarrow> has_field p ''item''"
    by (rule field_truthy_has_field) simp_all
  have s: "\<And>p. field_truthy p ''stored'' \<Longrightarrow> has_field p ''stored''"
    by (rule field_truthy_has_field) simp_all
  have "get_reply cd err result \<noteq> Throws x \<and> get_reply cd err result \<noteq> NoCallback"
    by (cases err; cases result) (simp_all add: get_reply_def validate_cases)
  moreover have "LZ4_decode cd b = Inl e \<longrightarrow> decode_envelope cd b = JNull"
    by (simp add: decode_envelope_def)
  moreover have "LZ4_decode cd b = Inr u \<and> JSON_parse cd (Buffer_toString cd u) = Inl e
      \<longrightarrow> decode_envelope cd b = JNull"
    by (simp add: decode_envelope_def)
  moreover have "validate_envelope JNull = Callback (Fail (Error ''Bad envelope content''))"
    by (simp add: validate_envelope_def)
  moreover have "get_reply cd None None = Callback (Result JNull)"
    by (simp add: get_reply_def)
  moreover have "validate_envelope (decode_envelope cd b) = Callback (Result env)
        \<longrightarrow> has_field env ''item'' \<and> has_field env ''stored''
          \<and> field_truthy env ''item'' \<and> field_truthy env ''stored''"
    using i s by (auto simp: validate_cases split: if_splits)
  moreover have "client this \<noteq> None \<longrightarrow> get this k = Issue (GetBuffer (generateKey this k))"
    by (simp add: get_def)
  ultimately show ?thesis
    unfolding a using validate_total [of "decode_envelope cd b"] by auto
qed

text \<open>
  Witness for C5: a miss; bytes without the frame header, which fail decompression;
  a framed text that fails parsing; and a framed envelope, which is returned whole.
\<close>

theorem get_miss_and_corruption_witness:
  "get sample_connection sample_key = Issue (GetBuffer ''users:1'')
   \<and> get_reply sample_codec None None = Callback (Result JNull)
   \<and> get_reply sample_codec None (Some [0x67, 0x61, 0x72, 0x62])
       = Callback (Fail (Error ''Bad envelope content''))
   \<and> get_reply sample_codec None (Some (sample_bytes ''{\"item\":''))
       = Callback (Fail (Error ''Bad envelope content''))
   \<and> get_reply sample_codec None
       (Some (sample_bytes ''{\"item\":{\"name\":\"Ann\"},\"stored\":1000,\"ttl\":5000}''))
       = Callback (Result (JObj [(''item'', JObj [(''name'', JStr ''Ann'')]),
                                 (''stored'', JNum 1000), (''ttl'', JNum 5000)]))
   \<and> has_field (JObj [(''item'', JObj [(''name'', JStr ''Ann'')]),
                       (''stored'', JNum 1000), (''ttl'', JNum 5000)]) ''item''"
proof -
  let ?s1 = "''{\"item\":{\"name\":\"Ann\"},\"stored\":1000,\"ttl\":5000}''"
  let ?p1 = "JObj [(''item'', JObj [(''name'', JStr ''Ann'')]),
                   (''stored'', JNum 1000), (''ttl'', JNum 5000)]"
  have c: "client sample_connection \<noteq> None"
    by (simp add: sample_connection_def Connection_def)
  have g: "LZ4_decode sample_codec [0x67, 0x61, 0x72, 0x62] = Inl (Error ''Invalid magic number'')"
    by (simp add: sample_codec_def sample_magic_def)
  have p: "JSON_parse sample_codec (Buffer_toString sample_codec
             (Buffer_from sample_codec ''{\"item\":'')) = Inl (Error ''SyntaxError: Unexpected token'')"
    unfolding sample_utf8 by (simp add: sample_parse_codec sample_parse_truncated)
  have r: "get_reply sample_codec None (Some (sample_bytes ?s1)) = Callback (Result ?p1)"
    by (simp add: sample_get sample_parse_Ann validate_envelope_def)
  from c g p r sample_unframe [of "''{\"item\":''"]
    get_miss_and_corruption [where this = sample_connection and k = sample_key
       and cd = sample_codec and b = "[0x67, 0x61, 0x72, 0x62]"
       and e = "Error ''Invalid magic number''"]
    get_miss_and_corruption [where cd = sample_codec and b = "sample_bytes ''{\"item\":''"
       and e = "Error ''SyntaxError: Unexpected token''"
       and u = "Buffer_from sample_codec ''{\"item\":''"]
    get_miss_and_corruption [where cd = sample_codec and b = "sample_bytes ?s1" and env = ?p1]
  show ?thesis unfolding sample_generateKey by blast
qed

text \<open>
  Counterexample to C5 as stated: a reply that is an empty Buffer (zero bytes) passes
  the test for a missing result and is answered with the error 'Bad envelope
  content', not with a miss.
\<close>

theorem empty_buffer_is_not_a_miss:
  "get_reply sample_codec None (Some []) = Callback (Fail (Error ''Bad envelope content''))
   \<and> get_reply sample_codec None (Some []) \<noteq> Callback (Result JNull)"
  by (simp add: get_reply_def decode_envelope_def validate_envelope_def sample_codec_def
        sample_magic_def)

section \<open>Operations after stop\<close>




section \<open>Store keys\<close>

text \<open>
  C7. The store key depends on the adapter only through its partition setting, so the
  same logical key under the same partition gives the same store key; two distinct
  non-empty partitions give distinct store keys for the same logical key; and the
  logical keys \<^verbatim>\<open>{segment: "a", id: "1"}\<close> and \<^verbatim>\<open>{segment: "a1", id: ""}\<close> give
  distinct store keys under any partition setting.
\<close>

theorem generateKey_deterministic:
  "(partition_str (settings a) = partition_str (settings b) \<longrightarrow> generateKey a k = generateKey b k)
   \<and> (partition_str (settings a) = Some p \<and> partition_str (settings b) = Some q
        \<and> p \<noteq> [] \<and> q \<noteq> [] \<and> p \<noteq> q \<longrightarrow> generateKey a k \<noteq> generateKey b k)
   \<and> generateKey a \<lparr> segment = ''a'', id_part = ''1'' \<rparr>
        \<noteq> generateKey a \<lparr> segment = ''a1'', id_part = [] \<rparr>"
  by (auto simp: generateKey_unfold split: option.splits)

text \<open>
  Witness for C7: partition \<^verbatim>\<open>"p"\<close> under two different hosts gives one store key;
  partitions \<^verbatim>\<open>"p"\<close> and \<^verbatim>\<open>"q"\<close> give two; the two boundary keys differ under \<^verbatim>\<open>"p"\<close>.
\<close>

theorem generateKey_deterministic_witness:
  "generateKey (Connection (no_options\<lparr> opt_partition := Some ''p'' \<rparr>) None)
       \<lparr> segment = ''a'', id_part = ''1'' \<rparr>
     = generateKey (Connection (no_options\<lparr> opt_partition := Some ''p'',
                                            opt_host := Some (JStr ''cache'') \<rparr>) None)
       \<lparr> segment = ''a'', id_part = ''1'' \<rparr>
   \<and> generateKey (Connection (no_options\<lparr> opt_partition := Some ''p'' \<rparr>) None)
       \<lparr> segment = ''a'', id_part = ''1'' \<rparr>
     \<noteq> generateKey (Connection (no_options\<lparr> opt_partition := Some ''q'' \<rparr>) None)
       \<lparr> segment = ''a'', id_part = ''1'' \<rparr>
   \<and> generateKey (Connection (no_options\<lparr> opt_partition := Some ''p'' \<rparr>) None)
       \<lparr> segment = ''a'', id_part = ''1'' \<rparr>
     \<noteq> generateKey (Connection (no_options\<lparr> opt_partition := Some ''p'' \<rparr>) None)
       \<lparr> segment = ''a1'', id_part = [] \<rparr>"
  using
    generateKey_deterministic
      [where a = "Connection (no_options\<lparr> opt_partition := Some ''p'' \<rparr>) None"
         and b = "Connection (no_options\<lparr> opt_partition := Some ''p'',
                                           opt_host := Some (JStr ''cache'') \<rparr>) None"
         and k = "\<lparr> segment = ''a'', id_part = ''1'' \<rparr>"]
    generateKey_deterministic
      [where a = "Connection (no_options\<lparr> opt_partition := Some ''p'' \<rparr>) None"
         and b = "Connection (no_options\<lparr> opt_partition := Some ''q'' \<rparr>) None"
         and k = "\<lparr> segment = ''a'', id_part = ''1'' \<rparr>" and p = "''p''" and q = "''q''"]
  by (simp add: Connection_def no_options_def)

section \<open>Topology of the new client\<close>

text \<open>
  C8. Without a supplied client \<^verbatim>\<open>start\<close> creates one client (with a supplied client,
  none), by one of four calls chosen in this order: with a non-empty sentinels list, the
  sentinel call carrying the list and the sentinel name; else with a url, the url
  call; else with a socket path, the socket call; else the call with port and host.
  In all four the options carry the configured password and the database index, which
  is \<^verbatim>\<open>database\<close> when that is truthy and \<^verbatim>\<open>db\<close> otherwise. The settings that the
  calls read are the configured options, with host 127.0.0.1 and port 6379 where the
  options give none.
\<close>

theorem start_topology:
  "(client this = None \<longrightarrow>
      new_client (start this) = Some (Redis_createClient (createClient_call (settings this))))
   \<and> (client this \<noteq> None \<longrightarrow> new_client (start this) = None)
   \<and> (has_sentinels s \<longrightarrow>
        createClient_call s = CreateSentinel (call_options (createClient_call s))
        \<and> co_sentinels (call_options (createClient_call s)) = Some (sentinels s)
        \<and> co_name (call_options (createClient_call s)) = Some (sentinelName s))
   \<and> (\<not> has_sentinels s \<longrightarrow>
        co_sentinels (call_options (createClient_call s)) = None
        \<and> co_name (call_options (createClient_call s)) = None)
   \<and> (\<not> has_sentinels s \<and> truthy (url s) \<longrightarrow>
        createClient_call s = CreateUrl (url s) (call_options (createClient_call s)))
   \<and> (\<not> has_sentinels s \<and> \<not> truthy (url s) \<and> truthy (socket s) \<longrightarrow>
        createClient_call s = CreateSocket (socket s) (call_options (createClient_call s)))
   \<and> (\<not> has_sentinels s \<and> \<not> truthy (url s) \<and> \<not> truthy (socket s) \<longrightarrow>
        createClient_call s
          = CreateHostPort (port s) (host s) (call_options (createClient_call s)))
   \<and> co_password (call_options (createClient_call s)) = password s
   \<and> co_db (call_options (createClient_call s))
        = (if truthy (database s) then database s else db s)
   \<and> (has_sentinels (s\<lparr> sentinels := JArr xs \<rparr>) \<longleftrightarrow> xs \<noteq> [])
   \<and> (\<not> truthy (sentinels s) \<longrightarrow> \<not> has_sentinels s)
   \<and> host (settings (Connection opts cl))
        = (case opt_host opts of None \<Rightarrow> JStr ''127.0.0.1'' | Some h \<Rightarrow> h)
   \<and> port (settings (Connection opts cl))
        = (case opt_port opts of None \<Rightarrow> JNum 6379 | Some n \<Rightarrow> n)
   \<and> url (settings (Connection opts cl))
        = (case opt_url opts of None \<Rightarrow> JUndefined | Some x \<Rightarrow> x)
   \<and> socket (settings (Connection opts cl))
        = (case opt_socket opts of None \<Rightarrow> JUndefined | Some x \<Rightarrow> x)
   \<and> sentinels (settings (Connection opts cl))
        = (case opt_sentinels opts of None \<Rightarrow> JUndefined | Some x \<Rightarrow> x)
   \<and> sentinelName (settings (Connection opts cl))
        = (case opt_sentinelName opts of None \<Rightarrow> JUndefined | Some x \<Rightarrow> x)
   \<and> password (settings (Connection opts cl))
        = (case opt_password opts of None \<Rightarrow> JUndefined | Some x \<Rightarrow> x)
   \<and> database (settings (Connection opts cl))
        = (case opt_database opts of None \<Rightarrow> JUndefined | Some x \<Rightarrow> x)
   \<and> db (settings (Connection opts cl))
        = (case opt_db opts of None \<Rightarrow> JUndefined | Some x \<Rightarrow> x)
   \<and> client (Connection opts cl) = cl"
proof -
  have "client this = None \<longrightarrow>
      new_client (start this) = Some (Redis_createClient (createClient_call (settings this)))"
    by (simp add: start_def Let_def)
  moreover have "client this \<noteq> None \<longrightarrow> new_client (start this) = None"
    by (simp add: start_def Let_def callback_once_def)
  moreover have "has_sentinels (s\<lparr> sentinels := JArr xs \<rparr>) \<longleftrightarrow> xs \<noteq> []"
    by (simp add: has_sentinels_def)
  moreover have "\<not> truthy (sentinels s) \<longrightarrow> \<not> has_sentinels s"
    by (simp add: has_sentinels_def)
  moreover have "has_sentinels s \<longrightarrow>
        createClient_call s = CreateSentinel (call_options (createClient_call s))"
    unfolding call_options_createClient by (simp add: createClient_call_def Let_def)
  moreover have "\<not> has_sentinels s \<and> truthy (url s) \<longrightarrow>
        createClient_call s = CreateUrl (url s) (call_options (createClient_call s))"
    unfolding call_options_createClient by (simp add: createClient_call_def Let_def)
  moreover have "\<not> has_sentinels s \<and> \<not> truthy (url s) \<and> truthy (socket s) \<longrightarrow>
        createClient_call s = CreateSocket (socket s) (call_options (createClient_call s))"
    unfolding call_options_createClient by (simp add: createClient_call_def Let_def)
  moreover have "\<not> has_sentinels s \<and> \<not> truthy (url s) \<and> \<not> truthy (socket s) \<longrightarrow>
        createClient_call s
          = CreateHostPort (port s) (host s) (call_options (createClient_call s))"
    unfolding call_options_createClient by (simp add: createClient_call_def Let_def)
  moreover have "has_sentinels s \<longrightarrow>
        co_sentinels (call_options (createClient_call s)) = Some (sentinels s)
        \<and> co_name (call_options (createClient_call s)) = Some (sentinelName s)"
    by (simp add: call_options_createClient)
  moreover have "\<not> has_sentinels s \<longrightarrow>
        co_sentinels (call_options (createClient_call s)) = None
        \<and> co_name (call_options (createClient_call s)) = None"
    by (simp add: call_options_createClient)
  moreover have "co_password (call_options (createClient_call s)) = password s"
    by (simp add: call_options_createClient)
  moreover have "co_db (call_options (createClient_call s))
        = (if truthy (database s) then database s else db s)"
    by (simp add: call_options_createClient js_or_def)
  moreover have "host (settings (Connection opts cl))
        = (case opt_host opts of None \<Rightarrow> JStr ''127.0.0.1'' | Some h \<Rightarrow> h)"
    by (simp add: Connection_def defaults_host_def split: option.splits)
  moreover have "port (settings (Connection opts cl))
        = (case opt_port opts of None \<Rightarrow> JNum 6379 | Some n \<Rightarrow> n)"
    by (simp add: Connection_def defaults_port_def split: option.splits)
  moreover have "url (settings (Connection opts cl))
        = (case opt_url opts of None \<Rightarrow> JUndefined | Some x \<Rightarrow> x)"
    by (simp add: Connection_def orUndefined_def split: option.splits)
  moreover have "socket (settings (Connection opts cl))
        = (case opt_socket opts of None \<Rightarrow> JUndefined | Some x \<Rightarrow> x)"
    by (simp add: Connection_def orUndefined_def split: option.splits)
  moreover have "sentinels (settings (Connection opts cl))
        = (case opt_sentinels opts of None \<Rightarrow> JUndefined | Some x \<Rightarrow> x)"
    by (simp add: Connection_def orUndefined_def split: option.splits)
  moreover have "sentinelName (settings (Connection opts cl))
        = (case opt_sentinelName opts of None \<Rightarrow> JUndefined | Some x \<Rightarrow> x)"
    by (simp add: Connection_def orUndefined_def split: option.splits)
  moreover have "password (settings (Connection opts cl))
        = (case opt_password opts of None \<Rightarrow> JUndefined | Some x \<Rightarrow> x)"
    by (simp add: Connection_def orUndefined_def split: option.splits)
  moreover have "database (settings (Connection opts cl))
        = (case opt_database opts of None \<Rightarrow> JUndefined | Some x \<Rightarrow> x)"
    by (simp add: Connection_def orUndefined_def split: option.splits)
  moreover have "db (settings (Connection opts cl))
        = (case opt_db opts of None \<Rightarrow> JUndefined | Some x \<Rightarrow> x)"
    by (simp add: Connection_def orUndefined_def split: option.splits)
  moreover have "client (Connection opts cl) = cl"
    by (simp add: Connection_def)
  ultimately show ?thesis
    by blast
qed

text \<open>
  Witness for C8: no options give the host and port call with the defaults; a
  configured host, port, password and database reach the host and port call, with
  \<^verbatim>\<open>database\<close> winning over \<^verbatim>\<open>db\<close>; sentinels win over a url; a url wins over a
  socket path; a socket path wins over host and port.
\<close>

theorem start_topology_witness:
  "createClient_call (settings (Connection no_options None))
     = CreateHostPort (JNum 6379) (JStr ''127.0.0.1'')
         \<lparr> co_password = JUndefined, co_db = JUndefined, co_sentinels = None, co_name = None \<rparr>
   \<and> createClient_call (settings (Connection
        (no_options\<lparr> opt_host := Some (JStr ''cache.internal''),
                     opt_port := Some (JNum 6380),
                     opt_password := Some (JStr ''secret''),
                     opt_database := Some (JNum 3),
                     opt_db := Some (JNum 2) \<rparr>) None))
     = CreateHostPort (JNum 6380) (JStr ''cache.internal'')
         \<lparr> co_password = JStr ''secret'', co_db = JNum 3, co_sentinels = None, co_name = None \<rparr>
   \<and> createClient_call (settings (Connection
        (no_options\<lparr> opt_sentinels := Some (JArr [JStr ''10.0.0.1:26379'']),
                     opt_sentinelName := Some (JStr ''mymaster''),
                     opt_url := Some (JStr ''redis://cache:6379''),
                     opt_password := Some (JStr ''secret''),
                     opt_db := Some (JNum 2) \<rparr>) None))
     = CreateSentinel
         \<lparr> co_password = JStr ''secret'', co_db = JNum 2,
           co_sentinels = Some (JArr [JStr ''10.0.0.1:26379'']),
           co_name = Some (JStr ''mymaster'') \<rparr>
   \<and> createClient_call (settings (Connection
        (no_options\<lparr> opt_url := Some (JStr ''redis://cache:6379''),
                     opt_socket := Some (JStr ''/tmp/redis.sock'') \<rparr>) None))
     = CreateUrl (JStr ''redis://cache:6379'')
         \<lparr> co_password = JUndefined, co_db = JUndefined, co_sentinels = None, co_name = None \<rparr>
   \<and> createClient_call (settings (Connection
        (no_options\<lparr> opt_socket := Some (JStr ''/tmp/redis.sock'') \<rparr>) None))
     = CreateSocket (JStr ''/tmp/redis.sock'')
         \<lparr> co_password = JUndefined, co_db = JUndefined, co_sentinels = None, co_name = None \<rparr>
   \<and> new_client (start (Connection no_options None))
     = Some (Redis_createClient (createClient_call (settings (Connection no_options None))))"
  using
    start_topology [where this = "Connection no_options None"
      and s = "settings (Connection no_options None)" and opts = no_options and cl = None]
    start_topology [where s = "settings (Connection
        (no_options\<lparr> opt_host := Some (JStr ''cache.internal''),
                     opt_port := Some (JNum 6380),
                     opt_password := Some (JStr ''secret''),
                     opt_database := Some (JNum 3),
                     opt_db := Some (JNum 2) \<rparr>) None)"]
    start_topology [where s = "settings (Connection
        (no_options\<lparr> opt_sentinels := Some (JArr [JStr ''10.0.0.1:26379'']),
                     opt_sentinelName := Some (JStr ''mymaster''),
                     opt_url := Some (JStr ''redis://cache:6379''),
                     opt_password := Some (JStr ''secret''),
                     opt_db := Some (JNum 2) \<rparr>) None)"]
    start_topology [where s = "settings (Connection
        (no_options\<lparr> opt_url := Some (JStr ''redis://cache:6379''),
                     opt_socket := Some (JStr ''/tmp/redis.sock'') \<rparr>) None)"]
    start_topology [where s = "settings (Connection
        (no_options\<lparr> opt_socket := Some (JStr ''/tmp/redis.sock'') \<rparr>) None)"]
  by (simp add: Connection_def no_options_def orUndefined_def has_sentinels_def js_or_def
        call_options_createClient defaults_host_def defaults_port_def)

section \<open>Idempotence of stop\<close>

text \<open>
  C9. \<^verbatim>\<open>stop\<close> has no failing path. A second \<^verbatim>\<open>stop\<close> changes nothing and makes no
  call on the client; after one or more calls of \<^verbatim>\<open>stop\<close> in a row \<^verbatim>\<open>isReady\<close>
  returns false; and \<^verbatim>\<open>stop\<close> without an active connection changes nothing.
\<close>

theorem stop_idempotent:
  "stop (fst (stop this)) = (fst (stop this), [])
   \<and> \<not> isReady (fst (stop this))
   \<and> (0 < n \<longrightarrow> \<not> isReady (((fst \<circ> stop) ^^ n) this)
                 \<and> stop (((fst \<circ> stop) ^^ n) this) = (((fst \<circ> stop) ^^ n) this, []))
   \<and> (client this = None \<longrightarrow> stop this = (this, []))"
  using stops_client [of n this] stop_client [of this]
  by (simp add: stop_def isReady_def)

text \<open>
  Witness for C9: two calls of \<^verbatim>\<open>stop\<close> on the sample adapter, and one on an adapter
  that was never started.
\<close>

theorem stop_idempotent_witness:
  "\<not> isReady (((fst \<circ> stop) ^^ 2) sample_connection)
   \<and> stop (((fst \<circ> stop) ^^ 2) sample_connection) = (((fst \<circ> stop) ^^ 2) sample_connection, [])
   \<and> stop (Connection no_options None) = (Connection no_options None, [])"
  using stop_idempotent [of sample_connection 2] stop_idempotent [of "Connection no_options None"]
  by (simp add: Connection_def)

section \<open>Segment names\<close>

text \<open>
  C10. For every string \<open>name\<close>, \<^verbatim>\<open>validateSegmentName\<close> returns \<^verbatim>\<open>null\<close> exactly when
  the name is non-empty and holds no null character; the empty string gives the error
  'Empty string', a name with a null character gives 'Includes null character'. The
  function returns the error, it does not throw.
\<close>

theorem validateSegmentName_spec:
  "(validateSegmentName name = None \<longleftrightarrow> name \<noteq> [] \<and> CHR 0x00 \<notin> set name)
   \<and> (name = [] \<longrightarrow> validateSegmentName name = Some (Error ''Empty string''))
   \<and> (name \<noteq> [] \<and> CHR 0x00 \<in> set name \<longrightarrow>
        validateSegmentName name = Some (Error ''Includes null character''))"
  by (simp add: validateSegmentName_def indexOf_absent)

text \<open>Witness for C10: a valid name, the empty name and a name with a null character.\<close>

theorem validateSegmentName_spec_witness:
  "validateSegmentName ''users'' = None
   \<and> validateSegmentName [] = Some (Error ''Empty string'')
   \<and> validateSegmentName [CHR ''a'', CHR 0x00, CHR ''b''] = Some (Error ''Includes null character'')"
  using validateSegmentName_spec [of "''users''"] validateSegmentName_spec [of "[]"]
    validateSegmentName_spec [of "[CHR ''a'', CHR 0x00, CHR ''b'']"]
  by simp

end
